theory Spec2Isabelle
  imports Main
begin

section \<open>Python strings\<close>

text \<open>
  The analyser of \<^verbatim>\<open>app_complete.py\<close> works on Python \<^verbatim>\<open>str\<close> values. A string is
  modelled as a \<^typ>\<open>string\<close>, each \<^typ>\<open>char\<close> standing for the code point of the same
  number (code points below 256). The character classes are Python's, restricted to that
  range.
\<close>

definition py_isspace :: "char \<Rightarrow> bool" where
  \<comment> \<open>\<^verbatim>\<open>str.isspace\<close>: TAB, LF, VT, FF, CR, FS, GS, RS, US, SPACE, NEL, NBSP\<close>
  "py_isspace c \<longleftrightarrow>
     c \<in> set [CHR 0x09, CHR 0x0A, CHR 0x0B, CHR 0x0C, CHR 0x0D, CHR 0x1C, CHR 0x1D,
              CHR 0x1E, CHR 0x1F, CHR 0x20, CHR 0x85, CHR 0xA0]"

definition py_isdigit :: "char \<Rightarrow> bool" where
  \<comment> \<open>\<^verbatim>\<open>str.isdigit\<close>: the decimal digits and the superscripts two, three and one\<close>
  "py_isdigit c \<longleftrightarrow> c \<in> set (''0123456789'' @ [CHR 0xB2, CHR 0xB3, CHR 0xB9])"

text \<open>\<^verbatim>\<open>s.strip()\<close>: leading and trailing whitespace removed.\<close>

definition strip :: "string \<Rightarrow> string" where
  "strip s = rev (dropWhile py_isspace (rev (dropWhile py_isspace s)))"

text \<open>\<^verbatim>\<open>s.startswith(p)\<close> and \<^verbatim>\<open>sub in s\<close> (substring test).\<close>

fun startswith :: "string \<Rightarrow> string \<Rightarrow> bool" where
  "startswith s [] = True"
| "startswith [] (p # ps) = False"
| "startswith (c # cs) (p # ps) = (c = p \<and> startswith cs ps)"

fun py_in :: "string \<Rightarrow> string \<Rightarrow> bool" where
  "py_in sub [] = (sub = [])"
| "py_in sub (c # cs) = (startswith (c # cs) sub \<or> py_in sub cs)"

text \<open>\<^verbatim>\<open>s.split('\n')\<close>: the pieces between line feeds; never an empty list.\<close>

fun split_lines :: "string \<Rightarrow> string list" where
  "split_lines [] = [[]]"
| "split_lines (c # cs) =
     (if c = CHR 0x0A then [] # split_lines cs
      else (case split_lines cs of [] \<Rightarrow> [[c]] | l # ls \<Rightarrow> (c # l) # ls))"

text \<open>
  \<^verbatim>\<open>s.split()\<close>: the maximal runs of non-whitespace characters. The scan keeps the
  current token (reversed) in \<open>cur\<close>.
\<close>

fun split_ws_from :: "string \<Rightarrow> string \<Rightarrow> string list" where
  "split_ws_from cur [] = (if cur = [] then [] else [rev cur])"
| "split_ws_from cur (c # cs) =
     (if py_isspace c
      then (if cur = [] then split_ws_from [] cs else rev cur # split_ws_from [] cs)
      else split_ws_from (c # cur) cs)"

definition split_ws :: "string \<Rightarrow> string list" where
  "split_ws s = split_ws_from [] s"

text \<open>\<^verbatim>\<open>str(n)\<close> for an integer, as the f-strings of the source format it.\<close>

definition digit_char :: "nat \<Rightarrow> char" where
  "digit_char d = ''0123456789'' ! d"

fun str_nat :: "nat \<Rightarrow> string" where
  "str_nat n = (if n < 10 then [digit_char n] else str_nat (n div 10) @ [digit_char (n mod 10)])"

declare str_nat.simps [simp del]

definition str_int :: "int \<Rightarrow> string" where
  "str_int i = (if i < 0 then CHR ''-'' # str_nat (nat (- i)) else str_nat (nat i))"

definition len :: "'a list \<Rightarrow> int" where
  "len xs = int (length xs)"

section \<open>The document analyser\<close>

datatype error = IndexError

record missing_entry =
  issue :: string
  mtext :: string

record analysis =
  total_lines :: int
  dimensions :: "string list"
  specifications :: "string list"
  "notes" :: "string list"
  missing_data :: "missing_entry list"
  quality_score :: int

text \<open>\<^verbatim>\<open>line.split()[-1]\<close>: the last token, IndexError when there is none.\<close>

definition last_token :: "string \<Rightarrow> error + string" where
  "last_token line = (case split_ws line of [] \<Rightarrow> Inl IndexError | t # ts \<Rightarrow> Inr (last (t # ts)))"

text \<open>The body of the loop over the lines (source lines 96 to 114).\<close>

definition classify_line :: "string \<Rightarrow> analysis \<Rightarrow> error + analysis" where
  "classify_line line a0 =
     (let a1 = (if py_in ''MM'' line \<or> py_in ''THK'' line \<or> py_in ''X'' line
                then a0\<lparr>dimensions := dimensions a0 @ [strip line]\<rparr> else a0);
          a2 = (if list_ex (\<lambda>word. py_in word line)
                     [''GRADE'', ''STEEL'', ''CONCRETE'', ''REINFORCEMENT'']
                then a1\<lparr>specifications := specifications a1 @ [strip line]\<rparr> else a1);
          a3 = (if list_ex (\<lambda>p. startswith (strip line) [p]) ''123456789'' \<or> py_in ''NOTE'' line
                then a2\<lparr>notes := notes a2 @ [strip line]\<rparr> else a2)
      in if py_in '' d'' line \<or> py_in '' D'' line
         then (case last_token line of
                 Inl e \<Rightarrow> Inl e
               | Inr tok \<Rightarrow>
                   if \<not> list_ex py_isdigit tok
                   then Inr (a3\<lparr>missing_data := missing_data a3 @
                          [\<lparr>issue = ''Missing dimension value'', mtext = strip line\<rparr>]\<rparr>)
                   else Inr a3)
         else Inr a3)"

fun classify_lines :: "string list \<Rightarrow> analysis \<Rightarrow> error + analysis" where
  "classify_lines [] a = Inr a"
| "classify_lines (line # rest) a =
     (case classify_line line a of Inl e \<Rightarrow> Inl e | Inr a' \<Rightarrow> classify_lines rest a')"

text \<open>The lines that survive the filter \<^verbatim>\<open>[l for l in ... if l.strip()]\<close>.\<close>

definition kept_lines :: "string \<Rightarrow> string list" where
  "kept_lines pdf_content = filter (\<lambda>l. strip l \<noteq> []) (split_lines pdf_content)"

definition analyze_pdf_content :: "string \<Rightarrow> error + analysis" where
  "analyze_pdf_content pdf_content =
     (let analysis = \<lparr>total_lines = 0, dimensions = [], specifications = [], notes = [],
                       missing_data = [], quality_score = 0\<rparr>;
          lines = kept_lines pdf_content;
          analysis = analysis\<lparr>total_lines := len lines\<rparr>
      in case classify_lines lines analysis of
           Inl e \<Rightarrow> Inl e
         | Inr analysis \<Rightarrow>
             (let score = 50;
                  score = (if len (dimensions analysis) > 10 then score + 15 else score);
                  score = (if len (specifications analysis) > 5 then score + 15 else score);
                  score = (if len (notes analysis) > 3 then score + 10 else score);
                  score = (if len (missing_data analysis) = 0 then score + 10 else score)
              in Inr (analysis\<lparr>quality_score := min 100 score\<rparr>)))"

section \<open>The markup detector\<close>

record dimension_issue =
  di_line :: int
  di_text :: string
  di_type :: string

record bold_change =
  bc_line :: int
  bc_text :: string
  should_be_bold :: bool

text \<open>
  The source never appends to \<^verbatim>\<open>red_markups\<close> and \<^verbatim>\<open>annotations\<close>; their element type
  is left as \<^typ>\<open>string\<close>.
\<close>

record detected_changes =
  red_markups :: "string list"
  bold_changes :: "bold_change list"
  dimension_issues :: "dimension_issue list"
  annotations :: "string list"

text \<open>The body of the loop over \<^verbatim>\<open>enumerate(lines, 1)\<close> (source lines 59 to 74).\<close>

definition detect_line :: "nat \<times> string \<Rightarrow> detected_changes \<Rightarrow> detected_changes" where
  "detect_line p d0 =
     (let line_num = fst p; line = snd p;
          d1 = (if list_ex (\<lambda>dim. py_in dim line) [''d'', ''D'', ''MM'', ''THK'']
                then (if strip line \<noteq> [] \<and> len (strip line) < 50
                      then d0\<lparr>dimension_issues := dimension_issues d0 @
                             [\<lparr>di_line = int line_num, di_text = strip line,
                               di_type = ''dimension''\<rparr>]\<rparr>
                      else d0)
                else d0)
      in if list_ex py_isdigit line
         then d1\<lparr>bold_changes := bold_changes d1 @
                [\<lparr>bc_line = int line_num, bc_text = strip line, should_be_bold = True\<rparr>]\<rparr>
         else d1)"

fun detect_lines :: "(nat \<times> string) list \<Rightarrow> detected_changes \<Rightarrow> detected_changes" where
  "detect_lines [] d = d"
| "detect_lines (p # rest) d = detect_lines rest (detect_line p d)"

definition detect_colors_in_pdf :: "string \<Rightarrow> detected_changes" where
  "detect_colors_in_pdf pdf_content =
     (let detected_changes = \<lparr>red_markups = [], bold_changes = [], dimension_issues = [],
                               annotations = []\<rparr>;
          lines = split_lines pdf_content
      in detect_lines (List.enumerate 1 lines) detected_changes)"

section \<open>The revision comparator\<close>

datatype change_type =
  DIMENSION_ADDED | DIMENSION_REMOVED | MISSING_DATA_RESOLVED | MARKUP_DETECTED
| FORMATTING_CHANGE

datatype severity_level = HIGH | MEDIUM | GOOD | INFO

record change =
  ctype :: change_type
  description :: string
  severity :: severity_level

text \<open>
  The result dictionary has one of two shapes, told apart by its key \<^verbatim>\<open>identical\<close>.
\<close>

datatype comparison_result =
  Identical_Files (message: string) (recommendation: string) (changes: "change list")
| Compared (before_analysis: analysis) (after_analysis: analysis) (changes: "change list")
    (total_changes: int) (quality_improvement: int)

definition identical :: "comparison_result \<Rightarrow> bool" where
  "identical r = (case r of Identical_Files m rc cs \<Rightarrow> True | Compared b a cs n q \<Rightarrow> False)"

text \<open>
  The message starts with a warning sign (U+26A0, U+FE0F), which lies outside the range of
  \<^typ>\<open>char\<close>; it is written as its six UTF-8 bytes.
\<close>

definition identical_message :: string where
  "identical_message =
     [CHR 0xE2, CHR 0x9A, CHR 0xA0, CHR 0xEF, CHR 0xB8, CHR 0x8F] @ '' IDENTICAL FILES DETECTED''"

definition identical_recommendation :: string where
  "identical_recommendation =
     ''BEFORE file should be ENGINEER COMMENTED version. '' @
     ''AFTER file should be DESIGNER UPDATED version.''"

text \<open>
  A Python set of strings is modelled by a list of its members. \<^verbatim>\<open>set(xs)\<close> is \<open>xs\<close>
  itself, \<^verbatim>\<open>a - b\<close> keeps the members of \<open>a\<close> that are not in \<open>b\<close>, and a
  \<^verbatim>\<open>for\<close> loop over a set visits every member once, in an order CPython leaves open.
  That order is the parameter \<open>iter\<close> of the comparator; \<open>set_iter_ok\<close> is all that is
  known of it.
\<close>

definition py_set :: "string list \<Rightarrow> string list" where
  "py_set xs = xs"

definition py_set_diff :: "string list \<Rightarrow> string list \<Rightarrow> string list" where
  "py_set_diff a b = filter (\<lambda>x. x \<notin> set b) a"


text \<open>
  \<^verbatim>\<open>compare_pdfs_ml\<close>. The digest \<^verbatim>\<open>hashlib.md5(s.encode()).hexdigest()\<close> belongs to the
  Python library and is the parameter \<open>md5_hex\<close>.
\<close>

definition compare_pdfs_ml ::
  "(string \<Rightarrow> 'h) \<Rightarrow> (string list \<Rightarrow> string list) \<Rightarrow> string \<Rightarrow> string \<Rightarrow> error + comparison_result"
where
  "compare_pdfs_ml md5_hex iter before_content after_content =
     (let before_hash = md5_hex before_content;
          after_hash = md5_hex after_content
      in if before_hash = after_hash
         then Inr (Identical_Files identical_message identical_recommendation [])
         else
           (case analyze_pdf_content before_content of
              Inl e \<Rightarrow> Inl e
            | Inr ba \<Rightarrow>
           (case analyze_pdf_content after_content of
              Inl e \<Rightarrow> Inl e
            | Inr aa \<Rightarrow>
           (let before_analysis = ba;
                after_analysis = aa;
                before_colors = detect_colors_in_pdf before_content;
                after_colors = detect_colors_in_pdf after_content;
                changes = [];
                before_dims = py_set (dimensions before_analysis);
                after_dims = py_set (dimensions after_analysis);
                changes = changes @
                  map (\<lambda>dim. \<lparr>ctype = DIMENSION_ADDED,
                              description = ''New dimension: '' @ dim,
                              severity = HIGH\<rparr>)
                      (iter (py_set_diff after_dims before_dims));
                changes = changes @
                  map (\<lambda>dim. \<lparr>ctype = DIMENSION_REMOVED,
                              description = ''Removed dimension: '' @ dim,
                              severity = MEDIUM\<rparr>)
                      (iter (py_set_diff before_dims after_dims));
                before_missing = len (missing_data before_analysis);
                after_missing = len (missing_data after_analysis);
                changes =
                  (if before_missing > after_missing
                   then changes @
                     [\<lparr>ctype = MISSING_DATA_RESOLVED,
                       description = ''Resolved '' @ str_int (before_missing - after_missing) @
                                     '' missing dimensions'',
                       severity = GOOD\<rparr>]
                   else changes);
                changes =
                  (if py_in ''Bold'' after_content \<and> \<not> py_in ''Bold'' before_content
                   then changes @
                     [\<lparr>ctype = MARKUP_DETECTED,
                       description = ''Designer markup: '' @ [CHR 0x22] @ ''Bold'' @ [CHR 0x22] @
                                     '' annotation found'',
                       severity = INFO\<rparr>]
                   else changes);
                changes =
                  (if len (bold_changes after_colors) > len (bold_changes before_colors)
                   then changes @
                     [\<lparr>ctype = FORMATTING_CHANGE,
                       description = ''Bold formatting applied to dimensions'',
                       severity = INFO\<rparr>]
                   else changes)
            in Inr (Compared before_analysis after_analysis changes (len changes)
                      (quality_score after_analysis - quality_score before_analysis))))))"

section \<open>The engineering checklist\<close>

datatype item_status = PASS | FAIL | WARNING

record checklist_item =
  status :: item_status
  item :: string
  details :: string

record checklist =
  critical_items :: "checklist_item list"
  chk_dimensions :: "checklist_item list"
  chk_specifications :: "checklist_item list"
  chk_annotations :: "checklist_item list"
  completeness :: "checklist_item list"

text \<open>
  \<^verbatim>\<open>analysis_result.get('after_analysis', {})\<close> followed by \<^verbatim>\<open>after.get(key, default)\<close>:
  the field of the after-analysis when the result has one, the default otherwise.
\<close>

definition after_get :: "comparison_result \<Rightarrow> (analysis \<Rightarrow> 'a) \<Rightarrow> 'a \<Rightarrow> 'a" where
  "after_get analysis_result field dflt =
     (case analysis_result of
        Identical_Files m rc cs \<Rightarrow> dflt
      | Compared b a cs n q \<Rightarrow> field a)"

definition get_total_changes :: "comparison_result \<Rightarrow> int" where
  "get_total_changes analysis_result =
     (case analysis_result of
        Identical_Files m rc cs \<Rightarrow> 0
      | Compared b a cs n q \<Rightarrow> n)"

definition generate_engineering_checklist :: "comparison_result \<Rightarrow> checklist" where
  "generate_engineering_checklist analysis_result =
     (let checklist = \<lparr>critical_items = [], chk_dimensions = [], chk_specifications = [],
                        chk_annotations = [], completeness = []\<rparr>;
          after_missing = after_get analysis_result missing_data [];
          checklist =
            (if after_missing \<noteq> []
             then checklist\<lparr>critical_items := critical_items checklist @
                    map (\<lambda>missing. \<lparr>status = FAIL, item = ''Missing Dimension Value'',
                                     details = mtext missing\<rparr>) after_missing\<rparr>
             else checklist\<lparr>critical_items := critical_items checklist @
                    [\<lparr>status = PASS, item = ''All Dimensions Specified'',
                      details = ''No missing dimension values detected''\<rparr>]\<rparr>);
          dim_count = len (after_get analysis_result dimensions []);
          checklist =
            (if dim_count > 10
             then checklist\<lparr>chk_dimensions := chk_dimensions checklist @
                    [\<lparr>status = PASS, item = ''Adequate Dimensions'',
                      details = str_int dim_count @ '' dimensions found''\<rparr>]\<rparr>
             else checklist\<lparr>chk_dimensions := chk_dimensions checklist @
                    [\<lparr>status = WARNING, item = ''Limited Dimensions'',
                      details = ''Only '' @ str_int dim_count @ '' dimensions found''\<rparr>]\<rparr>);
          spec_count = len (after_get analysis_result specifications []);
          checklist =
            (if spec_count > 5
             then checklist\<lparr>chk_specifications := chk_specifications checklist @
                    [\<lparr>status = PASS, item = ''Material Specifications'',
                      details = str_int spec_count @ '' specifications provided''\<rparr>]\<rparr>
             else checklist);
          total_changes = get_total_changes analysis_result;
          checklist =
            (if total_changes > 0
             then checklist\<lparr>chk_annotations := chk_annotations checklist @
                    [\<lparr>status = PASS, item = ''Designer Updates Detected'',
                      details = str_int total_changes @ '' changes found''\<rparr>]\<rparr>
             else checklist\<lparr>chk_annotations := chk_annotations checklist @
                    [\<lparr>status = FAIL, item = ''No Updates Detected'',
                      details = ''Files appear identical or no changes made''\<rparr>]\<rparr>);
          quality_score = after_get analysis_result quality_score 0
      in if quality_score \<ge> 80
         then checklist\<lparr>completeness := completeness checklist @
                [\<lparr>status = PASS, item = ''Drawing Completeness'',
                  details = ''Quality Score: '' @ str_int quality_score @ ''%''\<rparr>]\<rparr>
         else checklist\<lparr>completeness := completeness checklist @
                [\<lparr>status = WARNING, item = ''Drawing Needs Improvement'',
                  details = ''Quality Score: '' @ str_int quality_score @ ''%''\<rparr>]\<rparr>)"

section \<open>Predicates and observations used in the statements\<close>

text \<open>
  The four tests of the loop body, named. Each is the condition of the source, term for
  term; \<open>missing_rule\<close> reads the last token with \<^const>\<open>last\<close>, which is the token the
  source indexes whenever there is one.
\<close>

definition dimension_rule :: "string \<Rightarrow> bool" where
  "dimension_rule line \<longleftrightarrow> py_in ''MM'' line \<or> py_in ''THK'' line \<or> py_in ''X'' line"

definition specification_rule :: "string \<Rightarrow> bool" where
  "specification_rule line \<longleftrightarrow>
     list_ex (\<lambda>word. py_in word line) [''GRADE'', ''STEEL'', ''CONCRETE'', ''REINFORCEMENT'']"

definition note_rule :: "string \<Rightarrow> bool" where
  "note_rule line \<longleftrightarrow>
     list_ex (\<lambda>p. startswith (strip line) [p]) ''123456789'' \<or> py_in ''NOTE'' line"

definition missing_rule :: "string \<Rightarrow> bool" where
  "missing_rule line \<longleftrightarrow>
     (py_in '' d'' line \<or> py_in '' D'' line) \<and> \<not> list_ex py_isdigit (last (split_ws line))"

definition missing_of :: "string \<Rightarrow> missing_entry" where
  "missing_of line = \<lparr>issue = ''Missing dimension value'', mtext = strip line\<rparr>"

text \<open>
  The dimension test as the specification words it: a letter X of either case counts.
\<close>

definition claimed_dimension_rule :: "string \<Rightarrow> bool" where
  "claimed_dimension_rule line \<longleftrightarrow>
     py_in ''MM'' line \<or> py_in ''THK'' line \<or> py_in ''X'' line \<or> py_in ''x'' line"



section \<open>Facts about the string operations\<close>

lemma startswith_iff: "startswith s p \<longleftrightarrow> (\<exists>q. s = p @ q)"
  by (induction s p rule: startswith.induct) auto

lemma py_in_iff: "py_in sub s \<longleftrightarrow> (\<exists>p q. s = p @ sub @ q)"
proof (induction s)
  case Nil
  then show ?case by auto
next
  case (Cons c cs)
  show ?case
  proof
    assume "py_in sub (c # cs)"
    then consider "startswith (c # cs) sub" | "py_in sub cs" by auto
    then show "\<exists>p q. c # cs = p @ sub @ q"
    proof cases
      case 1
      then obtain q where "c # cs = sub @ q" by (auto simp: startswith_iff)
      then have "c # cs = [] @ sub @ q" by simp
      then show ?thesis by blast
    next
      case 2
      then obtain p q where "cs = p @ sub @ q" using Cons.IH by auto
      then have "c # cs = (c # p) @ sub @ q" by simp
      then show ?thesis by blast
    qed
  next
    assume "\<exists>p q. c # cs = p @ sub @ q"
    then obtain p q where pq: "c # cs = p @ sub @ q" by auto
    show "py_in sub (c # cs)"
    proof (cases p)
      case Nil
      with pq have "startswith (c # cs) sub" by (auto simp: startswith_iff)
      then show ?thesis by simp
    next
      case (Cons a p')
      with pq have "cs = p' @ sub @ q" by simp
      then have "py_in sub cs" using Cons.IH by blast
      then show ?thesis by simp
    qed
  qed
qed

lemma py_in_mem: "py_in sub s \<Longrightarrow> c \<in> set sub \<Longrightarrow> c \<in> set s"
  by (auto simp: py_in_iff)

lemma py_in_single: "py_in [c] s \<longleftrightarrow> c \<in> set s"
  by (induction s) auto

lemma strip_empty_iff: "strip s = [] \<longleftrightarrow> (\<forall>c\<in>set s. py_isspace c)"
proof -
  have "strip s = [] \<longleftrightarrow> (\<forall>c\<in>set (dropWhile py_isspace s). py_isspace c)"
    by (simp add: strip_def dropWhile_eq_Nil_conv)
  also have "\<dots> \<longleftrightarrow> dropWhile py_isspace s = []"
    by (metis dropWhile_eq_Nil_conv dropWhile_idem)
  also have "\<dots> \<longleftrightarrow> (\<forall>c\<in>set s. py_isspace c)"
    by (simp add: dropWhile_eq_Nil_conv)
  finally show ?thesis .
qed

lemma split_ws_from_empty_iff:
  "split_ws_from cur s = [] \<longleftrightarrow> cur = [] \<and> (\<forall>c\<in>set s. py_isspace c)"
  by (induction s arbitrary: cur) auto

lemma split_ws_empty_iff: "split_ws s = [] \<longleftrightarrow> (\<forall>c\<in>set s. py_isspace c)"
  by (simp add: split_ws_def split_ws_from_empty_iff)

lemma last_token_total: "split_ws line \<noteq> [] \<Longrightarrow> last_token line = Inr (last (split_ws line))"
  by (cases "split_ws line") (auto simp: last_token_def)

lemma missing_guard_token:
  assumes "py_in '' d'' line \<or> py_in '' D'' line"
  shows "split_ws line \<noteq> []"
proof -
  from assms have "CHR ''d'' \<in> set line \<or> CHR ''D'' \<in> set line"
    by (auto dest: py_in_mem [where c = "CHR ''d''"] py_in_mem [where c = "CHR ''D''"])
  moreover have "\<not> py_isspace CHR ''d''" "\<not> py_isspace CHR ''D''"
    by (simp_all add: py_isspace_def)
  ultimately show ?thesis
    by (auto simp: split_ws_empty_iff)
qed

section \<open>The analyser, line by line and as a whole\<close>

lemma classify_line_eq:
  "classify_line line a = Inr (a\<lparr>
      dimensions := dimensions a @ (if dimension_rule line then [strip line] else []),
      specifications := specifications a @ (if specification_rule line then [strip line] else []),
      notes := notes a @ (if note_rule line then [strip line] else []),
      missing_data := missing_data a @ (if missing_rule line then [missing_of line] else [])\<rparr>)"
proof (cases "py_in '' d'' line \<or> py_in '' D'' line")
  case True
  then have "last_token line = Inr (last (split_ws line))"
    by (intro last_token_total missing_guard_token)
  with True show ?thesis
    by (simp add: classify_line_def Let_def dimension_rule_def specification_rule_def
        note_rule_def missing_rule_def missing_of_def)
next
  case False
  then show ?thesis
    by (simp add: classify_line_def Let_def dimension_rule_def specification_rule_def
        note_rule_def missing_rule_def missing_of_def)
qed

lemma classify_lines_eq:
  "classify_lines ls a = Inr (a\<lparr>
      dimensions := dimensions a @ map strip (filter dimension_rule ls),
      specifications := specifications a @ map strip (filter specification_rule ls),
      notes := notes a @ map strip (filter note_rule ls),
      missing_data := missing_data a @ map missing_of (filter missing_rule ls)\<rparr>)"
proof (induction ls arbitrary: a)
  case Nil
  show ?case by simp
next
  case (Cons l ls)
  show ?case
    by (simp add: classify_line_eq Cons.IH)
qed

lemma analyze_pdf_content_eq:
  "analyze_pdf_content doc = Inr \<lparr>
      total_lines = len (kept_lines doc),
      dimensions = map strip (filter dimension_rule (kept_lines doc)),
      specifications = map strip (filter specification_rule (kept_lines doc)),
      notes = map strip (filter note_rule (kept_lines doc)),
      missing_data = map missing_of (filter missing_rule (kept_lines doc)),
      quality_score = min 100 (50
        + (if 10 < length (filter dimension_rule (kept_lines doc)) then 15 else 0)
        + (if 5 < length (filter specification_rule (kept_lines doc)) then 15 else 0)
        + (if 3 < length (filter note_rule (kept_lines doc)) then 10 else 0)
        + (if filter missing_rule (kept_lines doc) = [] then 10 else 0))\<rparr>"
  by (simp add: analyze_pdf_content_def classify_lines_eq Let_def len_def)

lemma dimension_rule_iff:
  "dimension_rule line \<longleftrightarrow>
     (\<exists>p q. line = p @ ''MM'' @ q) \<or> (\<exists>p q. line = p @ ''THK'' @ q) \<or> CHR ''X'' \<in> set line"
  unfolding dimension_rule_def py_in_single by (simp only: py_in_iff)



text \<open>
  C8: the analyser returns an analysis for every input string. Every line that survives
  the blank-line filter has at least one whitespace-delimited token, so reading its last
  token never raises IndexError, the loop over the kept lines ends without an error from
  any starting record, and so does the analyser.
\<close>

theorem analyzer_total:
  "(\<forall>line \<in> set (kept_lines D).
      split_ws line \<noteq> [] \<and> last_token line = Inr (last (split_ws line))) \<and>
   (\<forall>a0. \<exists>a. classify_lines (kept_lines D) a0 = Inr a) \<and>
   (\<exists>a. analyze_pdf_content D = Inr a)"
proof (intro conjI ballI allI)
  fix line assume "line \<in> set (kept_lines D)"
  then have "strip line \<noteq> []" by (simp add: kept_lines_def)
  then show "split_ws line \<noteq> []" by (simp add: strip_empty_iff split_ws_empty_iff)
  then show "last_token line = Inr (last (split_ws line))" by (rule last_token_total)
next
  fix a0 show "\<exists>a. classify_lines (kept_lines D) a0 = Inr a"
    by (simp add: classify_lines_eq)
next
  show "\<exists>a. analyze_pdf_content D = Inr a" by (simp add: analyze_pdf_content_eq)
qed

text \<open>An instance: a blank line followed by \<^verbatim>\<open>5 d\<close>.\<close>

theorem analyzer_total_witness:
  "kept_lines ('' '' @ [CHR 0x0A] @ ''5 d'') = [''5 d''] \<and>
   split_ws ''5 d'' \<noteq> [] \<and> last_token ''5 d'' = Inr (last (split_ws ''5 d'')) \<and>
   (\<exists>a. analyze_pdf_content ('' '' @ [CHR 0x0A] @ ''5 d'') = Inr a)"
proof -
  have k: "kept_lines ('' '' @ [CHR 0x0A] @ ''5 d'') = [''5 d'']"
    by (simp add: kept_lines_def strip_def py_isspace_def)
  from analyzer_total [of "'' '' @ [CHR 0x0A] @ ''5 d''"] show ?thesis
    unfolding k by simp
qed

text \<open>
  C1: for every document the analyser returns an analysis whose quality score is
  min(100, 50 + 15 if there are more than 10 dimensions + 15 if there are more than
  5 specifications + 10 if there are more than 3 notes + 10 if there is no missing-data
  entry), and the score lies between 0 and 100.
\<close>

theorem quality_score_formula:
  "\<exists>a. analyze_pdf_content D = Inr a \<and>
       quality_score a = min 100 (50
         + (if length (dimensions a) > 10 then 15 else 0)
         + (if length (specifications a) > 5 then 15 else 0)
         + (if length (notes a) > 3 then 10 else 0)
         + (if length (missing_data a) = 0 then 10 else 0)) \<and>
       0 \<le> quality_score a \<and> quality_score a \<le> 100"
  by (simp add: analyze_pdf_content_eq)

text \<open>An instance: the empty document scores 60.\<close>

theorem quality_score_formula_witness:
  "\<exists>a. analyze_pdf_content [] = Inr a \<and>
       quality_score a = min 100 (50
         + (if length (dimensions a) > 10 then 15 else 0)
         + (if length (specifications a) > 5 then 15 else 0)
         + (if length (notes a) > 3 then 10 else 0)
         + (if length (missing_data a) = 0 then 10 else 0)) \<and>
       0 \<le> quality_score a \<and> quality_score a \<le> 100 \<and> quality_score a = 60"
proof -
  have "analyze_pdf_content [] = Inr \<lparr>total_lines = 0, dimensions = [], specifications = [],
      notes = [], missing_data = [], quality_score = 60\<rparr>"
    by (simp add: analyze_pdf_content_def kept_lines_def strip_def len_def Let_def)
  with quality_score_formula [of "[]"] show ?thesis by simp
qed

text \<open>
  C9: for every document the quality score is at least the base score 50 (and at most
  100): no rule subtracts from it.
\<close>

theorem quality_score_at_least_base:
  "\<exists>a. analyze_pdf_content D = Inr a \<and> 50 \<le> quality_score a \<and> quality_score a \<le> 100"
  by (simp add: analyze_pdf_content_eq)

text \<open>An instance, and the document \<^verbatim>\<open>a d\<close> that scores exactly 50.\<close>

theorem quality_score_at_least_base_witness:
  "\<exists>a. analyze_pdf_content ''a d'' = Inr a \<and> 50 \<le> quality_score a \<and> quality_score a \<le> 100"
  using quality_score_at_least_base [of "''a d''"] by simp

lemma quality_score_base_attained:
  "analyze_pdf_content ''a d'' = Inr \<lparr>total_lines = 1, dimensions = [], specifications = [],
     notes = [], missing_data = [\<lparr>issue = ''Missing dimension value'', mtext = ''a d''\<rparr>],
     quality_score = 50\<rparr>"
  by (simp add: analyze_pdf_content_def kept_lines_def strip_def py_isspace_def py_isdigit_def
      classify_line_def last_token_def split_ws_def len_def Let_def)

text \<open>
  C6, as the code has it: the classifier tags a line as a dimension exactly when the line
  contains \<^verbatim>\<open>MM\<close>, \<^verbatim>\<open>THK\<close> or the uppercase letter \<^verbatim>\<open>X\<close>. Line by line, the loop
  body appends the stripped line to the dimensions under that condition and leaves them
  alone otherwise; for a document, the dimensions are the stripped kept lines that meet
  it, in order.
\<close>

theorem dimension_tag_rule:
  "(\<exists>a'. classify_line line a = Inr a' \<and>
       dimensions a' = dimensions a @
         (if (\<exists>p q. line = p @ ''MM'' @ q) \<or> (\<exists>p q. line = p @ ''THK'' @ q) \<or>
             CHR ''X'' \<in> set line
          then [strip line] else [])) \<and>
   (\<exists>r. analyze_pdf_content D = Inr r \<and>
       dimensions r = map strip (filter (\<lambda>line.
          (\<exists>p q. line = p @ ''MM'' @ q) \<or> (\<exists>p q. line = p @ ''THK'' @ q) \<or>
          CHR ''X'' \<in> set line) (kept_lines D)))"
proof
  show "\<exists>a'. classify_line line a = Inr a' \<and>
       dimensions a' = dimensions a @
         (if (\<exists>p q. line = p @ ''MM'' @ q) \<or> (\<exists>p q. line = p @ ''THK'' @ q) \<or>
             CHR ''X'' \<in> set line
          then [strip line] else [])"
    by (simp add: classify_line_eq dimension_rule_iff)
next
  show "\<exists>r. analyze_pdf_content D = Inr r \<and>
       dimensions r = map strip (filter (\<lambda>line.
          (\<exists>p q. line = p @ ''MM'' @ q) \<or> (\<exists>p q. line = p @ ''THK'' @ q) \<or>
          CHR ''X'' \<in> set line) (kept_lines D))"
    by (simp add: analyze_pdf_content_eq dimension_rule_iff [abs_def])
qed

text \<open>An instance: the line \<^verbatim>\<open>12 X 4\<close>, alone in its document.\<close>

theorem dimension_tag_rule_witness:
  "(\<exists>a'. classify_line ''12 X 4''
            \<lparr>total_lines = 1, dimensions = [], specifications = [], notes = [],
              missing_data = [], quality_score = 0\<rparr> = Inr a' \<and>
       dimensions a' = [] @
         (if (\<exists>p q. ''12 X 4'' = p @ ''MM'' @ q) \<or> (\<exists>p q. ''12 X 4'' = p @ ''THK'' @ q) \<or>
             CHR ''X'' \<in> set ''12 X 4''
          then [strip ''12 X 4''] else [])) \<and>
   (\<exists>r. analyze_pdf_content ''12 X 4'' = Inr r \<and>
       dimensions r = map strip (filter (\<lambda>line.
          (\<exists>p q. line = p @ ''MM'' @ q) \<or> (\<exists>p q. line = p @ ''THK'' @ q) \<or>
          CHR ''X'' \<in> set line) (kept_lines ''12 X 4'')))"
  using dimension_tag_rule
    [of "''12 X 4''"
        "\<lparr>total_lines = 1, dimensions = [], specifications = [], notes = [],
          missing_data = [], quality_score = 0\<rparr>" "''12 X 4''"]
  by simp

text \<open>
  C6 as the claim states it fails on the line \<^verbatim>\<open>x\<close>: the line contains a lowercase x,
  so the claimed rule tags it, but the analyser reports no dimension for it.
\<close>

theorem lowercase_x_not_dimension:
  "claimed_dimension_rule ''x'' \<and> kept_lines ''x'' = [''x''] \<and>
   analyze_pdf_content ''x'' = Inr \<lparr>total_lines = 1, dimensions = [], specifications = [],
      notes = [], missing_data = [], quality_score = 60\<rparr>"
  by (simp add: claimed_dimension_rule_def analyze_pdf_content_def kept_lines_def strip_def
      py_isspace_def classify_line_def len_def Let_def)

section \<open>The comparator\<close>









text \<open>
  C2: for every string X, whatever the digest function and the iteration order,
  comparing X with itself returns the identical-files result: its flag is true, its list
  of changes is empty and it carries the fixed message and recommendation. The result is
  returned before either document is analysed.
\<close>

theorem compare_identical_inputs:
  "compare_pdfs_ml md5_hex iter X X =
     Inr (Identical_Files identical_message identical_recommendation []) \<and>
   identical (Identical_Files identical_message identical_recommendation []) \<and>
   changes (Identical_Files identical_message identical_recommendation []) = []"
  by (simp add: compare_pdfs_ml_def identical_def)

text \<open>An instance: a document that is a single line feed.\<close>

theorem compare_identical_inputs_witness:
  "compare_pdfs_ml (\<lambda>s. s) remdups [CHR 0x0A] [CHR 0x0A] =
     Inr (Identical_Files identical_message identical_recommendation []) \<and>
   identical (Identical_Files identical_message identical_recommendation []) \<and>
   changes (Identical_Files identical_message identical_recommendation []) = []"
  using compare_identical_inputs [of "\<lambda>s. s" remdups "[CHR 0x0A]"] by simp









section \<open>The checklist\<close>

text \<open>
  C7: for every full (non-identical) comparison result, the checklist has at least one
  item under critical_items, dimensions, annotations and completeness; its
  specifications are non-empty exactly when the after-analysis has more than 5
  specifications, and then they are the single PASS item "Material Specifications".
\<close>

theorem checklist_categories:
  "critical_items (generate_engineering_checklist (Compared ba aa cs n q)) \<noteq> [] \<and>
   chk_dimensions (generate_engineering_checklist (Compared ba aa cs n q)) \<noteq> [] \<and>
   chk_annotations (generate_engineering_checklist (Compared ba aa cs n q)) \<noteq> [] \<and>
   completeness (generate_engineering_checklist (Compared ba aa cs n q)) \<noteq> [] \<and>
   (chk_specifications (generate_engineering_checklist (Compared ba aa cs n q)) \<noteq> []
      \<longleftrightarrow> length (specifications aa) > 5) \<and>
   chk_specifications (generate_engineering_checklist (Compared ba aa cs n q)) =
     (if length (specifications aa) > 5
      then [\<lparr>status = PASS, item = ''Material Specifications'',
             details = str_int (int (length (specifications aa))) @
                       '' specifications provided''\<rparr>]
      else [])"
  by (simp add: generate_engineering_checklist_def after_get_def get_total_changes_def
      Let_def len_def)

text \<open>An instance: a result whose after-analysis has no specification.\<close>

theorem checklist_categories_witness:
  "critical_items (generate_engineering_checklist
      (Compared \<lparr>total_lines = 0, dimensions = [], specifications = [], notes = [],
                  missing_data = [], quality_score = 60\<rparr>
                \<lparr>total_lines = 1, dimensions = [''12 X 4''], specifications = [],
                  notes = [''12 X 4''], missing_data = [], quality_score = 60\<rparr>
                [\<lparr>ctype = DIMENSION_ADDED, description = ''New dimension: 12 X 4'',
                  severity = HIGH\<rparr>] 1 0)) \<noteq> [] \<and>
   chk_specifications (generate_engineering_checklist
      (Compared \<lparr>total_lines = 0, dimensions = [], specifications = [], notes = [],
                  missing_data = [], quality_score = 60\<rparr>
                \<lparr>total_lines = 1, dimensions = [''12 X 4''], specifications = [],
                  notes = [''12 X 4''], missing_data = [], quality_score = 60\<rparr>
                [\<lparr>ctype = DIMENSION_ADDED, description = ''New dimension: 12 X 4'',
                  severity = HIGH\<rparr>] 1 0)) = []"
  using checklist_categories
    [of "\<lparr>total_lines = 0, dimensions = [], specifications = [], notes = [],
          missing_data = [], quality_score = 60\<rparr>"
        "\<lparr>total_lines = 1, dimensions = [''12 X 4''], specifications = [],
          notes = [''12 X 4''], missing_data = [], quality_score = 60\<rparr>"
        "[\<lparr>ctype = DIMENSION_ADDED, description = ''New dimension: 12 X 4'',
           severity = HIGH\<rparr>]" 1 0]
  by simp

end
